theory Spec2Isabelle
  imports Complex_Main "HOL-Library.Word"
begin

unbundle bit_operations_syntax

section \<open>Data model\<close>

text \<open>
  Exceptions of the Python code, as values. \<open>DecodeError\<close> is the \<open>ValueError\<close>
  that \<open>_load_image\<close> raises, \<open>CvError\<close> is \<open>cv2.error\<close>, \<open>QuantizationError\<close> an
  exception of a clustering library; the others carry Python's names.
\<close>

datatype exn = DecodeError | ValueError | CvError | TypeError | QuantizationError

text \<open>
  A numpy image of dtype uint8. \<open>nchan = None\<close> is a two-dimensional array
  (\<open>image.ndim == 2\<close>), \<open>nchan = Some c\<close> a three-dimensional one with
  \<open>image.shape[2] == c\<close>. \<open>pix\<close> holds the pixels in row-major order, each with its
  channel values (one value for a two-dimensional array).
\<close>

record image =
  height :: nat
  width :: nat
  nchan :: "nat option"
  pix :: "8 word list list"

type_synonym bgr = "8 word \<times> 8 word \<times> 8 word"

section \<open>Mode detector (engine.py, \<open>_detect_mode\<close>)\<close>

text \<open>
  \<open>bgr.reshape(-1, 3)\<close> for \<open>bgr = image[:, :, :3]\<close>: one row of three values per pixel.
\<close>

definition bgr_rows :: "image \<Rightarrow> 8 word list list" where
  "bgr_rows img = map (take 3) (pix img)"

text \<open>
  The sampled unique colour count. \<open>idx\<close> is what \<open>np.random.choice(len(sample), 10000,
  replace=False)\<close> returned: it is drawn from numpy's global generator, so it is an input
  of the model. It is read only when the image has more than 10000 pixels.
\<close>

definition unique_colors :: "nat list \<Rightarrow> image \<Rightarrow> nat" where
  "unique_colors idx img =
     (let sample = bgr_rows img;
          sample = (if length sample > 10000 then map (\<lambda>i. sample ! i) idx else sample)
      in length (remdups sample))"

text \<open>
  \<open>float(cv2.Canny(gray, 50, 150).sum() / 255) / (h * w)\<close>: \<open>edge_pixels\<close> is the number
  of pixels the Canny operator marks (an output of OpenCV, given to the model).
\<close>

definition edge_density :: "nat \<Rightarrow> image \<Rightarrow> real" where
  "edge_density edge_pixels img = real edge_pixels / real (height img * width img)"

text \<open>
  \<open>_detect_mode\<close>. \<open>std_dev\<close> is \<open>gray.std()\<close>, computed by numpy on OpenCV's grayscale
  conversion. \<open>cv2.cvtColor(bgr, COLOR_BGR2GRAY)\<close> raises on an array that has fewer than
  three channels or no pixels.
\<close>

definition detect_mode :: "nat \<Rightarrow> real \<Rightarrow> nat list \<Rightarrow> image \<Rightarrow> exn + string" where
  "detect_mode edge_pixels std_dev idx img =
     (case nchan img of
        None \<Rightarrow> Inr ''line_art''
      | Some c \<Rightarrow>
          if c = 1 then Inr ''line_art''
          else if c < 3 \<or> height img * width img = 0 then Inl CvError
          else if unique_colors idx img < 64 \<and> edge_density edge_pixels img < 0.05
            then Inr ''logo''
          else if unique_colors idx img < 16 then Inr ''pixel_art''
          else if std_dev < 30 then Inr ''line_art''
          else if unique_colors idx img > 1000 then Inr ''photo''
          else Inr ''auto'')"

section \<open>Palette size (color_quantizer.py, \<open>quantize\<close> and \<open>_auto_k\<close>)\<close>

text \<open>
  \<open>cv2.calcHist([gray], [0], None, [256], [0, 256])\<close>: bin \<open>b\<close> counts the pixels of the
  grayscale plane with value \<open>b\<close>.
\<close>

definition calc_hist :: "8 word list \<Rightarrow> nat list" where
  "calc_hist gray = map (\<lambda>b. length (filter (\<lambda>v. unat v = b) gray)) [0..<256]"

text \<open>\<open>_auto_k\<close>, on the grayscale plane \<open>cv2.cvtColor(image, COLOR_BGR2GRAY)\<close>.\<close>

definition auto_k :: "8 word list \<Rightarrow> int" where
  "auto_k gray =
     (let non_zero_bins = int (length (filter (\<lambda>n. n > 0) (calc_hist gray)))
      in max 2 (min 32 (non_zero_bins div 8)))"

text \<open>
  The palette size \<open>quantize\<close> hands to the palette computation: line 149 clamps the
  request, lines 160-161 test the clamped value for zero.
\<close>

definition choose_k :: "int \<Rightarrow> 8 word list \<Rightarrow> int" where
  "choose_k n_colors gray =
     (let n_colors = max 2 (min 64 n_colors)
      in if n_colors = 0 then auto_k gray else n_colors)"

section \<open>Color quantizer (color_quantizer.py)\<close>

subsection \<open>Helpers\<close>

text \<open>A pixel row of the image as a BGR triple: \<open>image.reshape(-1, 3)\<close>.\<close>

definition row_bgr :: "8 word list \<Rightarrow> bgr" where
  "row_bgr r = (r ! 0, r ! 1, r ! 2)"

text \<open>\<open>_bgr_to_hex\<close>: the format \<open>#{r:02x}{g:02x}{b:02x}\<close>.\<close>

definition hex_digit :: "nat \<Rightarrow> char" where
  "hex_digit n = ''0123456789abcdef'' ! n"

definition hex2 :: "8 word \<Rightarrow> string" where
  "hex2 v = [hex_digit (unat v div 16), hex_digit (unat v mod 16)]"

definition bgr_to_hex :: "bgr \<Rightarrow> string" where
  "bgr_to_hex c = (case c of (b, g, r) \<Rightarrow> ''#'' @ hex2 r @ hex2 g @ hex2 b)"

text \<open>
  \<open>_color_distance\<close>. The channel values are 8-bit integers, so every product and sum
  under the root is a multiple of 1/512 below \<open>2^20\<close> and exact in double precision;
  \<open>weighted_sq\<close> is the value the code raises to the power 0.5.
\<close>

definition weighted_sq :: "bgr \<Rightarrow> bgr \<Rightarrow> real" where
  "weighted_sq c1 c2 =
     (case c1 of (b1, g1, r1) \<Rightarrow> case c2 of (b2, g2, r2) \<Rightarrow>
        let dr = real (unat r1) - real (unat r2);
            dg = real (unat g1) - real (unat g2);
            db = real (unat b1) - real (unat b2);
            r_mean = (real (unat r1) + real (unat r2)) / 2
        in (2 + r_mean / 256) * dr * dr + 4 * dg * dg + (2 + (255 - r_mean) / 256) * db * db)"

definition color_distance :: "bgr \<Rightarrow> bgr \<Rightarrow> real" where
  "color_distance c1 c2 = sqrt (weighted_sq c1 c2)"

text \<open>The test of the merge loop, \<open>_color_distance(palette[i], palette[j]) < 15\<close>.\<close>

definition too_close :: "bgr \<Rightarrow> bgr \<Rightarrow> bool" where
  "too_close c1 c2 = (color_distance c1 c2 < 15)"

lemma sqrt_less_15: "sqrt x < 15 \<longleftrightarrow> x < 225"
proof -
  have "sqrt 225 = sqrt (15\<^sup>2)" by simp
  then have "sqrt 225 = 15" by (simp only: real_sqrt_abs)
  then show ?thesis using real_sqrt_less_iff[of x 225] by simp
qed

lemma too_close_code [code]: "too_close c1 c2 = (weighted_sq c1 c2 < 225)"
  by (simp add: too_close_def color_distance_def sqrt_less_15)

text \<open>\<open>np.argmin\<close> and \<open>np.argmax\<close>: the first index of the least (greatest) value.\<close>

definition argmin :: "'a::linorder list \<Rightarrow> nat" where
  "argmin xs = length (takeWhile (\<lambda>x. x \<noteq> Min (set xs)) xs)"

definition argmax :: "'a::linorder list \<Rightarrow> nat" where
  "argmax xs = length (takeWhile (\<lambda>x. x \<noteq> Max (set xs)) xs)"

subsection \<open>Label assignment (\<open>_assign_labels\<close>)\<close>

text \<open>
  The squared Euclidean distance of a pixel to a palette entry. The code computes it in
  float32 on integer values below 256: the sum stays below \<open>2^24\<close> and is exact.
\<close>

definition dist_sq :: "bgr \<Rightarrow> bgr \<Rightarrow> int" where
  "dist_sq p c =
     (case p of (b1, g1, r1) \<Rightarrow> case c of (b2, g2, r2) \<Rightarrow>
        (uint b1 - uint b2)\<^sup>2 + (uint g1 - uint g2)\<^sup>2 + (uint r1 - uint r2)\<^sup>2)"

definition nearest :: "bgr list \<Rightarrow> bgr \<Rightarrow> nat" where
  "nearest palette p = argmin (map (dist_sq p) palette)"

text \<open>\<open>np.argmin\<close> over an empty palette axis raises \<open>ValueError\<close>.\<close>

definition assign_labels :: "bgr list \<Rightarrow> bgr list \<Rightarrow> exn + nat list" where
  "assign_labels pixels palette =
     (if palette = [] then Inl ValueError else Inr (map (nearest palette) pixels))"

subsection \<open>Median cut (\<open>_MedianCutBox\<close>, \<open>_median_cut\<close>)\<close>

definition channel :: "nat \<Rightarrow> bgr \<Rightarrow> 8 word" where
  "channel ch c = (case c of (b, g, r) \<Rightarrow> if ch = 0 then b else if ch = 1 then g else r)"

definition channel_range :: "bgr list \<Rightarrow> nat" where
  "channel_range pixels =
     argmax (map (\<lambda>ch. Max (set (map (unat \<circ> channel ch) pixels))
                       - Min (set (map (unat \<circ> channel ch) pixels))) [0, 1, 2])"

text \<open>
  \<open>split\<close>. \<open>argsort\<close> is modelled by the stable sort on the channel value; numpy's
  default sort agrees with it wherever the channel values of the box are distinct.
\<close>

definition box_split :: "bgr list \<Rightarrow> bgr list \<times> bgr list" where
  "box_split pixels =
     (let ch = channel_range pixels;
          sorted_pixels = sort_key (unat \<circ> channel ch) pixels;
          mid = length sorted_pixels div 2
      in (take mid sorted_pixels, drop mid sorted_pixels))"

text \<open>
  \<open>average\<close>: \<open>pixels.mean(axis=0).astype(np.uint8)\<close>, the channel means truncated.
\<close>

definition average :: "bgr list \<Rightarrow> bgr" where
  "average pixels =
     (let mean = (\<lambda>ch. of_nat (sum_list (map (unat \<circ> channel ch) pixels) div length pixels))
      in (mean 0, mean 1, mean 2))"

text \<open>
  The loop of \<open>_median_cut\<close>. \<open>boxes.sort(key=len, reverse=True)\<close> is stable, as is
  \<open>sort_key\<close> on the negated length.
\<close>

function median_cut_loop :: "bgr list list \<Rightarrow> nat \<Rightarrow> bgr list list" where
  "median_cut_loop boxes n_colors =
     (if length boxes < n_colors then
        (let boxes = sort_key (\<lambda>b. - int (length b)) boxes;
             largest = hd boxes;
             boxes = tl boxes
         in if length largest < 2 then largest # boxes
            else (case box_split largest of (left, right) \<Rightarrow>
                    median_cut_loop (boxes @ [left, right]) n_colors))
      else boxes)"
  by pat_completeness auto
termination
  by (relation "measure (\<lambda>(boxes, n_colors). n_colors - length boxes)") auto

declare median_cut_loop.simps [simp del]

definition median_cut :: "bgr list \<Rightarrow> nat \<Rightarrow> bgr list" where
  "median_cut pixels n_colors = map average (median_cut_loop [pixels] n_colors)"

subsection \<open>Palette refinement (\<open>_refine_palette\<close>)\<close>

text \<open>
  \<open>np.bincount(labels, minlength=k)\<close>. The labels come from \<open>_assign_labels\<close> and are
  below \<open>k\<close>, so the result has length \<open>k\<close>.
\<close>

definition bincount :: "nat list \<Rightarrow> nat \<Rightarrow> nat list" where
  "bincount labels k = map (\<lambda>i. count_list labels i) [0..<k]"

text \<open>
  The indices to keep: \<open>pixel_counts / total >= 0.001\<close>, and the index of the greatest
  count if none qualifies. The quotient of two integers below \<open>2^53\<close> is compared with
  the double next to 1/1000; that is the comparison \<open>1000 * count \<ge> total\<close>.
\<close>

definition keep_indices :: "nat list \<Rightarrow> nat \<Rightarrow> nat list" where
  "keep_indices pixel_counts total_px =
     (let keep = filter (\<lambda>i. 1000 * pixel_counts ! i \<ge> total_px) [0..<length pixel_counts]
      in if keep = [] then [argmax pixel_counts] else keep)"

definition index_of :: "nat \<Rightarrow> nat list \<Rightarrow> nat" where
  "index_of x xs = length (takeWhile (\<lambda>y. y \<noteq> x) xs)"

text \<open>\<open>_compact_labels\<close> and \<open>np.delete(palette, j, axis=0)\<close>.\<close>

definition compact_labels :: "nat list \<Rightarrow> nat \<Rightarrow> nat list" where
  "compact_labels labels removed_idx = map (\<lambda>l. if l > removed_idx then l - 1 else l) labels"

definition delete_at :: "nat \<Rightarrow> 'a list \<Rightarrow> 'a list" where
  "delete_at j xs = take j xs @ drop (Suc j) xs"

text \<open>
  The two nested \<open>for\<close> loops of the merge pass visit the pairs \<open>(i, j)\<close>, \<open>i < j\<close>, in
  this order and stop at the first pair closer than 15.
\<close>

definition pair_scan :: "bgr list \<Rightarrow> (nat \<times> nat) list" where
  "pair_scan palette =
     concat (map (\<lambda>i. map (\<lambda>j. (i, j)) [i + 1..<length palette]) [0..<length palette])"

definition find_pair :: "bgr list \<Rightarrow> (nat \<times> nat) option" where
  "find_pair palette =
     List.find (\<lambda>(i, j). too_close (palette ! i) (palette ! j)) (pair_scan palette)"

lemma find_pair_bounds:
  assumes "find_pair palette = Some (i, j)"
  shows "i < j \<and> j < length palette"
proof -
  from assms have "(i, j) \<in> set (pair_scan palette)"
    unfolding find_pair_def by (auto simp: find_Some_iff in_set_conv_nth)
  then show ?thesis by (auto simp: pair_scan_def)
qed

text \<open>
  The \<open>while merged and len(palette) > 2\<close> loop: one merge per round, until a round
  finds no pair or two entries are left.
\<close>

function merge_loop :: "bgr list \<Rightarrow> nat list \<Rightarrow> bgr list \<times> nat list" where
  "merge_loop palette labels =
     (if length palette > 2 then
        (case find_pair palette of
           None \<Rightarrow> (palette, labels)
         | Some (i, j) \<Rightarrow>
             merge_loop (delete_at j palette)
               (compact_labels (map (\<lambda>l. if l = j then i else l) labels) j))
      else (palette, labels))"
  by pat_completeness auto
termination
proof (relation "measure (\<lambda>(palette, labels). length palette)")
  show "wf (measure (\<lambda>(palette, labels). length palette))" by simp
next
  fix palette :: "bgr list" and labels :: "nat list" and x2 i j
  assume "find_pair palette = Some x2" "(i, j) = x2"
  then have "j < length palette" using find_pair_bounds[of palette i j] by simp
  then show "((delete_at j palette,
          compact_labels (map (\<lambda>l. if l = j then i else l) labels) j), palette, labels)
         \<in> measure (\<lambda>(palette, labels). length palette)"
    by (simp add: delete_at_def)
qed

declare merge_loop.simps [simp del]

text \<open>
  \<open>_refine_palette\<close> on the flattened label image. A pixel whose label is kept gets the
  label's new index; a pixel of a removed colour gets the nearest kept colour of its
  quantized value.
\<close>

definition refine_palette :: "bgr list \<Rightarrow> bgr list \<Rightarrow> nat list \<Rightarrow> bgr list \<times> nat list" where
  "refine_palette quantized_img palette labels =
     (let total_px = length labels;
          k = length palette;
          pixel_counts = bincount labels k;
          keep = keep_indices pixel_counts total_px;
          palette = map (\<lambda>i. palette ! i) keep;
          new_labels = map (\<lambda>(l, q). if l \<in> set keep then index_of l keep
                                     else nearest palette q) (zip labels quantized_img)
      in merge_loop palette new_labels)"

subsection \<open>\<open>ColorQuantizer.quantize\<close>\<close>

definition build_masks :: "nat list \<Rightarrow> nat \<Rightarrow> 8 word list list" where
  "build_masks labels k = map (\<lambda>i. map (\<lambda>l. if l = i then 255 else 0) labels) [0..<k]"

text \<open>
  The library calls of the quantizer: OpenCV's grayscale conversion, and the two
  clusterings (\<open>MiniBatchKMeans\<close> with the sampling before it, and \<open>cv2.kmeans\<close> on a
  sample), each with its centres already cast to uint8.
\<close>

record extern =
  cv_gray :: "bgr list \<Rightarrow> 8 word list"
  sk_kmeans :: "bgr list \<Rightarrow> nat \<Rightarrow> exn + bgr list"
  cv_kmeans :: "bgr list \<Rightarrow> nat \<Rightarrow> exn + bgr list"

definition compute_palette :: "extern \<Rightarrow> string \<Rightarrow> bgr list \<Rightarrow> nat \<Rightarrow> exn + bgr list" where
  "compute_palette ext method pixels n_colors =
     (if method = ''median_cut'' then Inr (median_cut pixels n_colors)
      else if method = ''octree'' then cv_kmeans ext pixels n_colors
      else sk_kmeans ext pixels n_colors)"

text \<open>\<open>image[:, :, 3]\<close>, flattened.\<close>

definition alpha_plane :: "image \<Rightarrow> 8 word list" where
  "alpha_plane img = map (\<lambda>r. r ! 3) (pix img)"

text \<open>
  \<open>quantize\<close>. It returns the quantized pixels, the palette as hex strings and one mask
  per palette entry. An array that is neither BGR nor BGRA fails at one of the reshapes,
  and an array without pixels in the palette computation.
\<close>

definition quantize ::
  "extern \<Rightarrow> image \<Rightarrow> int \<Rightarrow> string \<Rightarrow> exn + (bgr list \<times> string list \<times> 8 word list list)" where
  "quantize ext img n_colors method =
     (if (nchan img \<noteq> Some 3 \<and> nchan img \<noteq> Some 4) \<or> pix img = [] then Inl ValueError
      else
        let alpha = (if nchan img = Some 4 then Some (alpha_plane img) else None);
            pixels = map row_bgr (pix img);
            n_colors = nat (choose_k n_colors (cv_gray ext pixels))
        in case compute_palette ext method pixels n_colors of
             Inl e \<Rightarrow> Inl e
           | Inr palette \<Rightarrow>
               (case assign_labels pixels palette of
                  Inl e \<Rightarrow> Inl e
                | Inr labels \<Rightarrow>
                    let quantized_img = map (\<lambda>l. palette ! l) labels;
                        (palette, labels_2d) = refine_palette quantized_img palette labels;
                        quantized_img = map (\<lambda>l. palette ! l) labels_2d;
                        hex_colors = map bgr_to_hex palette;
                        masks = build_masks labels_2d (length palette);
                        masks = (case alpha of None \<Rightarrow> masks
                                 | Some a \<Rightarrow> map (\<lambda>m. map2 (AND) m a) masks)
                    in Inr (quantized_img, hex_colors, masks)))"

text \<open>No two different palette entries are closer than 15.\<close>

definition far_apart :: "bgr list \<Rightarrow> bool" where
  "far_apart P =
     (\<forall>i<length P. \<forall>j<length P. i \<noteq> j \<longrightarrow> 15 \<le> color_distance (P ! i) (P ! j))"

section \<open>Settings\<close>

text \<open>
  A settings dictionary maps keys to JSON values. \<open>truthy\<close> is Python's truth value,
  \<open>dict_get\<close> is \<open>dict.get(key, default)\<close>.
\<close>

datatype val = VBool bool | VInt int | VStr string | VNone

type_synonym settings = "string \<rightharpoonup> val"

definition truthy :: "val \<Rightarrow> bool" where
  "truthy v = (case v of VBool b \<Rightarrow> b | VInt n \<Rightarrow> n \<noteq> 0 | VStr s \<Rightarrow> s \<noteq> [] | VNone \<Rightarrow> False)"

definition dict_get :: "settings \<Rightarrow> string \<Rightarrow> val \<Rightarrow> val" where
  "dict_get d key dflt = (case d key of None \<Rightarrow> dflt | Some v \<Rightarrow> v)"

section \<open>Preprocessor (preprocessor.py)\<close>














definition split_color :: "image \<Rightarrow> image" where
  "split_color img = img\<lparr>nchan := Some 3, pix := map (take 3) (pix img)\<rparr>"



section \<open>Engine (engine.py)\<close>

definition DEFAULT_SETTINGS :: settings where
  "DEFAULT_SETTINGS =
     [''mode'' \<mapsto> VStr ''auto'', ''n_colors'' \<mapsto> VInt 16,
      ''quantize_method'' \<mapsto> VStr ''kmeans'', ''detail'' \<mapsto> VStr ''medium'',
      ''smooth'' \<mapsto> VBool True, ''upscale'' \<mapsto> VBool True, ''denoise'' \<mapsto> VBool True,
      ''bilateral'' \<mapsto> VBool True, ''clahe'' \<mapsto> VBool True, ''sharpen'' \<mapsto> VBool True,
      ''background'' \<mapsto> VStr ''none'', ''optimize'' \<mapsto> VBool True, ''min_area'' \<mapsto> VInt 4]"

text \<open>The dictionary that \<open>vectorize\<close> returns.\<close>

record result =
  r_svg :: string
  r_quantized_img :: "bgr list"
  r_palette :: "string list"
  r_masks :: "8 word list list"
  r_width :: nat
  r_height :: nat

text \<open>
  The state a call of \<open>vectorize\<close> acts on: the dictionaries on the heap, a reference
  being an index into the list, and the calls the progress callback has received.
\<close>

record pystate =
  heap :: "settings list"
  calls :: "(int \<times> string) list"

text \<open>
  What \<open>vectorize\<close> calls outside engine.py: the decoder (\<open>cv2.imdecode\<close>, then Pillow),
  the two measurements of \<open>_detect_mode\<close> (the number of Canny edge pixels and the
  standard deviation of the grayscale plane), the preprocessor, the quantizer, the
  tracer of one mask (given with its height and width) and the optimizer. Each of the
  calls that the engine wraps in \<open>try\<close> may raise. The preprocessor, the tracer and the
  optimizer read the configuration with \<open>get\<close> only, so they receive its value.
\<close>

record collab =
  load_image :: "8 word list \<Rightarrow> exn + image"
  canny_count :: "image \<Rightarrow> nat"
  gray_std :: "image \<Rightarrow> real"
  preprocess_c :: "image \<Rightarrow> settings \<Rightarrow> exn + image"
  quantize_c :: "image \<Rightarrow> val \<Rightarrow> val \<Rightarrow> exn + (bgr list \<times> string list \<times> 8 word list list)"
  trace_layer :: "nat \<Rightarrow> nat \<Rightarrow> 8 word list \<Rightarrow> string \<Rightarrow> settings \<Rightarrow> exn + string"
  optimize_svg :: "string \<Rightarrow> settings \<Rightarrow> exn + string"

text \<open>
  \<open>_progress\<close>: without a callback nothing happens; with one it is called, and an
  exception it raises (\<open>f pct name\<close> is true) is swallowed.
\<close>

definition progress :: "(int \<Rightarrow> string \<Rightarrow> bool) option \<Rightarrow> int \<Rightarrow> string \<Rightarrow> pystate \<Rightarrow> pystate" where
  "progress cb pct name st =
     (case cb of
        None \<Rightarrow> st
      | Some f \<Rightarrow> (let raised = f pct name in st\<lparr>calls := calls st @ [(pct, name)]\<rparr>))"

text \<open>A natural number in decimal, and \<open>str\<close> of a settings value.\<close>

definition digit_char :: "nat \<Rightarrow> char" where
  "digit_char n = ''0123456789'' ! n"

function show_nat :: "nat \<Rightarrow> string" where
  "show_nat n = (if n < 10 then [digit_char n] else show_nat (n div 10) @ [digit_char (n mod 10)])"
  by pat_completeness auto
termination
  by (relation "measure id") auto

declare show_nat.simps [simp del]

definition py_str :: "val \<Rightarrow> string" where
  "py_str v =
     (case v of
        VStr s \<Rightarrow> s
      | VInt i \<Rightarrow> (if i < 0 then ''-'' @ show_nat (nat (- i)) else show_nat (nat i))
      | VBool b \<Rightarrow> (if b then ''True'' else ''False'')
      | VNone \<Rightarrow> ''None'')"

text \<open>\<open>"\n".join(svg_lines)\<close>.\<close>

fun join_lines :: "string list \<Rightarrow> string" where
  "join_lines [] = []"
| "join_lines [x] = x"
| "join_lines (x # y # ys) = x @ [CHR 0x0A] @ join_lines (y # ys)"

text \<open>\<open>SVGTracer.assemble_svg\<close> (tracer.py).\<close>

definition assemble_svg :: "(string \<times> string) list \<Rightarrow> nat \<Rightarrow> nat \<Rightarrow> settings \<Rightarrow> string" where
  \<open>assemble_svg layers w h settings =
     (let bg = dict_get settings ''background'' (VStr ''none'');
          svg_lines =
            [''<?xml version="1.0" encoding="UTF-8"?>'',
             ''<svg xmlns="http://www.w3.org/2000/svg" '' @
             ''viewBox="0 0 '' @ show_nat w @ '' '' @ show_nat h @ ''" '' @
             ''width="'' @ show_nat w @ ''" height="'' @ show_nat h @ ''">'']
            @ (if truthy bg \<and> bg \<noteq> VStr ''none''
               then [''  <rect width="'' @ show_nat w @ ''" height="'' @ show_nat h @
                     ''" fill="'' @ py_str bg @ ''"/>'']
               else [])
            @ map (\<lambda>(color, path_el). ''  '' @ path_el)
                (filter (\<lambda>(color, path_el). path_el \<noteq> []) layers)
            @ [''</svg>'']
      in join_lines svg_lines)\<close>


text \<open>Lines 146-159: the alpha plane is dropped, a grayscale image becomes BGR.\<close>

definition strip_alpha :: "image \<Rightarrow> image" where
  "strip_alpha processed =
     (if nchan processed = Some 4 then split_color processed else processed)"

definition gray2bgr :: "image \<Rightarrow> image" where
  "gray2bgr img = img\<lparr>nchan := Some 3, pix := map (\<lambda>r. [r ! 0, r ! 0, r ! 0]) (pix img)\<rparr>"

definition to_bgr :: "image \<Rightarrow> image" where
  "to_bgr bgr_image =
     (if nchan bgr_image = None then gray2bgr bgr_image
      else if nchan bgr_image = Some 1 then gray2bgr bgr_image
      else bgr_image)"

text \<open>
  \<open>bgr_image.reshape(-1, 3)\<close>: the values in groups of three, a \<open>ValueError\<close> when their
  number is not a multiple of three.
\<close>

fun chunk3 :: "'a list \<Rightarrow> 'a list list" where
  "chunk3 (a # b # c # rest) = [a, b, c] # chunk3 rest"
| "chunk3 _ = []"

definition reshape3 :: "image \<Rightarrow> exn + 8 word list list" where
  "reshape3 img =
     (let flat = concat (pix img)
      in if length flat mod 3 \<noteq> 0 then Inl ValueError else Inr (chunk3 flat))"

text \<open>
  The single-colour path, lines 163-172. \<open>np.unique\<close> also sorts the rows; the engine
  uses their number and, when there is one row, that row.
\<close>

definition fast_path :: "collab \<Rightarrow> settings \<Rightarrow> image \<Rightarrow> 8 word list list \<Rightarrow> exn + result" where
  "fast_path env cfg bgr_image unique_pixels =
     (let h = height bgr_image;
          w = width bgr_image;
          hex_c = bgr_to_hex (row_bgr (unique_pixels ! 0));
          full_mask = replicate (h * w) 255
      in case trace_layer env h w full_mask hex_c cfg of
           Inl e \<Rightarrow> Inl e
         | Inr path_el \<Rightarrow>
             Inr \<lparr>r_svg = assemble_svg [(hex_c, path_el)] w h cfg,
                  r_quantized_img = map row_bgr (pix bgr_image), r_palette = [hex_c],
                  r_masks = [full_mask], r_width = w, r_height = h\<rparr>)"

text \<open>The tracing loop, lines 188-195: a layer whose tracing raises is left out.\<close>

definition trace_layers ::
  "collab \<Rightarrow> settings \<Rightarrow> nat \<Rightarrow> nat \<Rightarrow> string list \<Rightarrow> 8 word list list \<Rightarrow> (string \<times> string) list" where
  "trace_layers env cfg h w palette masks =
     concat (map (\<lambda>(color, mask).
                    case trace_layer env h w mask color cfg of
                      Inl e \<Rightarrow> []
                    | Inr path_el \<Rightarrow> if path_el \<noteq> [] then [(color, path_el)] else [])
                 (zip palette masks))"

text \<open>Lines 205-212.\<close>

definition optimize_step :: "collab \<Rightarrow> settings \<Rightarrow> string \<Rightarrow> string" where
  "optimize_step env cfg svg_raw =
     (if truthy (dict_get cfg ''optimize'' (VBool True))
      then (case optimize_svg env svg_raw cfg of Inl e \<Rightarrow> svg_raw | Inr svg_final \<Rightarrow> svg_final)
      else svg_raw)"

text \<open>Lines 175-223: quantize, trace, assemble, optimize.\<close>

definition main_path ::
  "collab \<Rightarrow> (int \<Rightarrow> string \<Rightarrow> bool) option \<Rightarrow> settings \<Rightarrow> image \<Rightarrow> pystate
     \<Rightarrow> (exn + result) \<times> pystate" where
  "main_path env cb cfg bgr_image st =
     (let h = height bgr_image;
          w = width bgr_image;
          n_colors = dict_get cfg ''n_colors'' (VInt 16);
          method = dict_get cfg ''quantize_method'' (VStr ''kmeans'')
      in case quantize_c env bgr_image n_colors method of
           Inl e \<Rightarrow> (Inl e, st)
         | Inr (quantized_img, palette, masks) \<Rightarrow>
             let st = progress cb 55 ''tracing'' st;
                 layers = trace_layers env cfg h w palette masks;
                 st = progress cb 80 ''assembling'' st;
                 svg_raw = assemble_svg layers w h cfg;
                 st = progress cb 90 ''optimizing'' st;
                 svg_final = optimize_step env cfg svg_raw;
                 st = progress cb 100 ''done'' st
             in (Inr \<lparr>r_svg = svg_final, r_quantized_img = quantized_img,
                      r_palette = palette, r_masks = masks, r_width = w, r_height = h\<rparr>, st))"

text \<open>Lines 143-163.\<close>

definition after_preprocess ::
  "collab \<Rightarrow> (int \<Rightarrow> string \<Rightarrow> bool) option \<Rightarrow> settings \<Rightarrow> image \<Rightarrow> pystate
     \<Rightarrow> (exn + result) \<times> pystate" where
  "after_preprocess env cb cfg processed st =
     (let st = progress cb 30 ''quantizing'' st;
          bgr_image = to_bgr (strip_alpha processed)
      in case reshape3 bgr_image of
           Inl e \<Rightarrow> (Inl e, st)
         | Inr rows \<Rightarrow>
             let unique_pixels = remdups rows
             in if length unique_pixels = 1 then (fast_path env cfg bgr_image unique_pixels, st)
                else main_path env cb cfg bgr_image st)"

text \<open>
  Lines 130-132: \<open>cfg["mode"] = _detect_mode(image)\<close> when the mode is \<open>auto\<close>. \<open>c\<close> is
  the reference of \<open>cfg\<close>, \<open>draw\<close> the sample that \<open>np.random.choice\<close> returns.
\<close>

definition resolve_mode :: "collab \<Rightarrow> nat list \<Rightarrow> image \<Rightarrow> nat \<Rightarrow> pystate \<Rightarrow> exn + pystate" where
  "resolve_mode env draw img c st =
     (if (heap st ! c) ''mode'' = Some (VStr ''auto'') then
        (case detect_mode (canny_count env img) (gray_std env img) draw img of
           Inl e \<Rightarrow> Inl e
         | Inr m \<Rightarrow> Inr (st\<lparr>heap := (heap st)[c := (heap st ! c)(''mode'' \<mapsto> VStr m)]\<rparr>))
      else Inr st)"

text \<open>
  \<open>VectorizationEngine.vectorize\<close>. \<open>settings\<close> is the reference of the caller's
  dictionary; \<open>cfg = {**DEFAULT_SETTINGS, **settings}\<close> is a new dictionary on the heap.
\<close>

definition vectorize ::
  "collab \<Rightarrow> (int \<Rightarrow> string \<Rightarrow> bool) option \<Rightarrow> nat list \<Rightarrow> 8 word list \<Rightarrow> nat \<Rightarrow> pystate
     \<Rightarrow> (exn + result) \<times> pystate" where
  "vectorize env cb draw image_data settings st =
     (let c = length (heap st);
          st = st\<lparr>heap := heap st @ [DEFAULT_SETTINGS ++ (heap st ! settings)]\<rparr>;
          st = progress cb 0 ''loading'' st
      in case load_image env image_data of
           Inl e \<Rightarrow> (Inl e, st)
         | Inr img \<Rightarrow>
             (case resolve_mode env draw img c st of
                Inl e \<Rightarrow> (Inl e, st)
              | Inr st \<Rightarrow>
                  let st = progress cb 10 ''preprocessing'' st;
                      cfg = heap st ! c;
                      processed = (case preprocess_c env img cfg of
                                     Inl e \<Rightarrow> img | Inr processed \<Rightarrow> processed)
                  in after_preprocess env cb cfg processed st))"

text \<open>
  The quantizer as the engine calls it, with the values of \<open>n_colors\<close> and
  \<open>quantize_method\<close> from the configuration: a \<open>bool\<close> counts as an integer, any other
  non-integer fails in \<open>min\<close>, and a method that is not a string equals neither name.
\<close>

definition quantize_val ::
  "extern \<Rightarrow> image \<Rightarrow> val \<Rightarrow> val \<Rightarrow> exn + (bgr list \<times> string list \<times> 8 word list list)" where
  "quantize_val ext img n_colors method =
     (let m = (case method of VStr s \<Rightarrow> s | _ \<Rightarrow> [])
      in case n_colors of
           VInt n \<Rightarrow> quantize ext img n m
         | VBool b \<Rightarrow> quantize ext img (if b then 1 else 0) m
         | _ \<Rightarrow> Inl TypeError)"

section \<open>SVG optimizer (optimizer.py, \<open>_round_path_coords\<close>)\<close>

text \<open>
  The pattern \<open>_COORD_RE\<close> is \<open>-?\d+\.?\d*(?:e[+-]?\d+)?\<close>, case-insensitive. Every part
  after the first digits is optional, so the match at a position is the greedy one: a
  sign, the digits, a point, more digits, and an exponent if \<open>e\<close> is followed by digits.
  Strings are ASCII here, and \<open>\d\<close> is a decimal digit.
\<close>

definition is_digit :: "char \<Rightarrow> bool" where
  "is_digit c = (c \<in> set ''0123456789'')"

definition digits_val :: "string \<Rightarrow> int" where
  "digits_val ds = foldl (\<lambda>a c. 10 * a + (of_char c - 48)) 0 ds"

text \<open>
  \<open>(?:e[+-]?\d+)?\<close> at the head of \<open>s\<close>: the exponent and the number of characters
  matched, or no exponent.
\<close>

definition match_exponent :: "string \<Rightarrow> (int \<times> nat) option" where
  "match_exponent s =
     (case s of
        [] \<Rightarrow> None
      | e # r \<Rightarrow>
          if e = CHR ''e'' \<or> e = CHR ''E'' then
            (let (sg, sl) = (case r of
                               [] \<Rightarrow> (1, 0)
                             | c # r' \<Rightarrow> if c = CHR ''+'' then (1, 1)
                                         else if c = CHR ''-'' then (- 1, 1) else (1, 0));
                 ds = takeWhile is_digit (drop sl r)
             in if ds = [] then None
                else Some (sg * digits_val ds, 1 + sl + length ds))
          else None)"

text \<open>A matched number: its sign, integer digits, fraction digits and exponent.\<close>

record number =
  n_neg :: bool
  n_int :: string
  n_frac :: string
  n_exp :: int

text \<open>
  The match of \<open>_COORD_RE\<close> that starts at the head of \<open>s\<close>, with the number of
  characters it takes. A sign that no digit follows is not a match.
\<close>

definition match_number :: "string \<Rightarrow> (number \<times> nat) option" where
  "match_number s =
     (let neg = (s \<noteq> [] \<and> hd s = CHR ''-'');
          s1 = (if neg then tl s else s);
          ds = takeWhile is_digit s1;
          s2 = dropWhile is_digit s1
      in if ds = [] then None
         else
           let dot = (s2 \<noteq> [] \<and> hd s2 = CHR ''.'');
               s3 = (if dot then tl s2 else s2);
               fs = takeWhile is_digit s3;
               s4 = dropWhile is_digit s3;
               n = (if neg then 1 else 0) + length ds + (if dot then 1 else 0) + length fs
           in case match_exponent s4 of
                None \<Rightarrow> Some (\<lparr>n_neg = neg, n_int = ds, n_frac = fs, n_exp = 0\<rparr>, n)
              | Some (ex, el) \<Rightarrow>
                  Some (\<lparr>n_neg = neg, n_int = ds, n_frac = fs, n_exp = ex\<rparr>, n + el))"

text \<open>
  \<open>float(match.group(1))\<close>: the double next to the decimal value \<open>n / d\<close>, rounding
  ties to even, as a mantissa and a binary exponent; values from \<open>2^1024\<close> on are
  infinite. \<open>rhe a b\<close> is \<open>a / b\<close> rounded to an integer, ties to even.
\<close>

function bit_length :: "int \<Rightarrow> int" where
  "bit_length n = (if n \<le> 0 then 0 else 1 + bit_length (n div 2))"
  by pat_completeness auto
termination
  by (relation "measure nat") auto

declare bit_length.simps [simp del]

definition rhe :: "int \<Rightarrow> int \<Rightarrow> int" where
  "rhe a b =
     (let q = a div b; r = a mod b
      in if 2 * r < b then q else if 2 * r > b then q + 1
         else if even q then q else q + 1)"

definition ilog2 :: "int \<Rightarrow> int \<Rightarrow> int" where
  "ilog2 n d =
     (let t = bit_length n - bit_length d
      in if (if t \<ge> 0 then 2 ^ nat t * d \<le> n else d \<le> 2 ^ nat (- t) * n) then t else t - 1)"

datatype f64 = Finite int int | Infinity

definition to_double :: "int \<Rightarrow> int \<Rightarrow> f64" where
  "to_double n d =
     (if n = 0 then Finite 0 0
      else
        let e = ilog2 n d;
            p = max (e - 52) (- 1074);
            m = (if p \<ge> 0 then rhe n (d * 2 ^ nat p) else rhe (n * 2 ^ nat (- p)) d)
        in if bit_length m + p > 1024 then Infinity else Finite m p)"

text \<open>
  \<open>round(val, 2)\<close> followed by the format \<open>.2f\<close>: both round the exact binary value
  correctly, so the digits printed are those of \<open>val\<close> rounded to hundredths, ties to
  even.
\<close>

definition hundredths :: "int \<Rightarrow> int \<Rightarrow> int" where
  "hundredths m p = (if p \<ge> 0 then m * 2 ^ nat p * 100 else rhe (m * 100) (2 ^ nat (- p)))"

definition rstrip :: "char \<Rightarrow> string \<Rightarrow> string" where
  "rstrip c s = rev (dropWhile (\<lambda>x. x = c) (rev s))"

function show_dec :: "int \<Rightarrow> string" where
  "show_dec n = (if n < 10 then [digit_char (nat n)]
                 else show_dec (n div 10) @ [digit_char (nat (n mod 10))])"
  by pat_completeness auto
termination
  by (relation "measure nat") auto

declare show_dec.simps [simp del]

definition format_2f :: "bool \<Rightarrow> int \<Rightarrow> string" where
  "format_2f neg h =
     (if neg then ''-'' else []) @ show_dec (h div 100) @ ''.'' @
     [digit_char (nat (h mod 100 div 10)), digit_char (nat (h mod 10))]"

text \<open>
  \<open>_round_coords\<close>, on a match: \<open>f"{rounded:.2f}".rstrip("0").rstrip(".")\<close>. A negative
  zero keeps its sign, an infinite value prints as \<open>inf\<close>.
\<close>

definition round_coords :: "number \<Rightarrow> string" where
  "round_coords tok =
     (let n0 = digits_val (n_int tok @ n_frac tok);
          e10 = n_exp tok - int (length (n_frac tok));
          val = (if e10 \<ge> 0 then to_double (n0 * 10 ^ nat e10) 1
                 else to_double n0 (10 ^ nat (- e10)))
      in case val of
           Infinity \<Rightarrow> (if n_neg tok then ''-inf'' else ''inf'')
         | Finite m p \<Rightarrow> rstrip CHR ''.'' (rstrip CHR ''0'' (format_2f (n_neg tok) (hundredths m p))))"

text \<open>
  \<open>_COORD_RE.sub(_round_coords, d)\<close>: the string is scanned from the left; a match is
  replaced and the scan resumes behind it (\<open>k\<close> counts the characters of the match
  still to skip), any other character is copied.
\<close>

primrec sub_from :: "string \<Rightarrow> nat \<Rightarrow> string" where
  "sub_from [] k = []"
| "sub_from (c # r) k =
     (case k of
        Suc j \<Rightarrow> sub_from r j
      | 0 \<Rightarrow>
          (case match_number (c # r) of
             Some (tok, n) \<Rightarrow> round_coords tok @ sub_from r (n - 1)
           | None \<Rightarrow> c # sub_from r 0))"

text \<open>\<open>_round_path_coords\<close>, the rounding that \<open>optimize_svg\<close> applies to every \<open>d\<close> attribute.\<close>

definition round_path_coords :: "string \<Rightarrow> string" where
  "round_path_coords d = sub_from d 0"

section \<open>Concrete inputs\<close>


text \<open>A grayscale plane with 64 different levels.\<close>

definition gray64 :: "8 word list" where
  "gray64 = map of_nat [0..<64]"

text \<open>A quantizer without clustering libraries, for the runs that use median cut.\<close>

definition no_extern :: extern where
  "no_extern = \<lparr>cv_gray = (\<lambda>_. []), sk_kmeans = (\<lambda>_ _. Inl QuantizationError),
     cv_kmeans = (\<lambda>_ _. Inl QuantizationError)\<rparr>"

text \<open>Two BGR pixels one step apart in every channel.\<close>

definition img2close :: image where
  "img2close = \<lparr>height = 1, width = 2, nchan = Some 3, pix = [[0, 0, 0], [1, 1, 1]]\<rparr>"

text \<open>Three BGR pixels far from each other.\<close>

definition img3far :: image where
  "img3far = \<lparr>height = 1, width = 3, nchan = Some 3,
     pix = [[0, 0, 0], [100, 0, 255], [255, 255, 0]]\<rparr>"

text \<open>Two BGRA pixels: black at half opacity, white fully opaque.\<close>

definition img2a :: image where
  "img2a = \<lparr>height = 1, width = 2, nchan = Some 4,
     pix = [[0, 0, 0, 128], [255, 255, 255, 255]]\<rparr>"





text \<open>
  An engine whose decoder yields \<open>img\<close>, whose preprocessor returns its input, whose
  quantizer is the model above without clustering libraries, whose tracer answers
  \<open>traced\<close> for every mask and whose optimizer returns its input.
\<close>

definition demo_env :: "image \<Rightarrow> exn + string \<Rightarrow> collab" where
  "demo_env img traced =
     \<lparr>load_image = (\<lambda>_. Inr img), canny_count = (\<lambda>_. 0), gray_std = (\<lambda>_. 0),
      preprocess_c = (\<lambda>i _. Inr i), quantize_c = quantize_val no_extern,
      trace_layer = (\<lambda>_ _ _ _ _. traced), optimize_svg = (\<lambda>s _. Inr s)\<rparr>"

text \<open>A 2x2 image of one colour, and a 1x2 image of black and white.\<close>

definition img_red :: image where
  "img_red = \<lparr>height = 2, width = 2, nchan = Some 3, pix = replicate 4 [0, 0, 255]\<rparr>"

definition img_bw :: image where
  "img_bw = \<lparr>height = 1, width = 2, nchan = Some 3, pix = [[0, 0, 0], [255, 255, 255]]\<rparr>"

text \<open>
  A state whose heap holds the caller's settings at reference 0; a callback that never
  raises; settings that select median cut with two colours; an image file.
\<close>

definition st0 :: "settings \<Rightarrow> pystate" where
  "st0 s = \<lparr>heap = [s], calls = []\<rparr>"

definition always_ok :: "int \<Rightarrow> string \<Rightarrow> bool" where
  "always_ok pct name = False"

definition mc_settings :: settings where
  "mc_settings = [''quantize_method'' \<mapsto> VStr ''median_cut'', ''n_colors'' \<mapsto> VInt 2]"


text \<open>A call returned a result (it did not raise).\<close>

definition succeeded :: "exn + 'a \<Rightarrow> bool" where
  "succeeded r = (case r of Inl e \<Rightarrow> False | Inr x \<Rightarrow> True)"

definition blob :: "8 word list" where
  "blob = [137, 80, 78, 71]"



section \<open>Mode detector: results\<close>










section \<open>Palette size: results\<close>

lemma choose_k_clamp: "choose_k n gray = max 2 (min 64 n)"
  by (simp add: choose_k_def Let_def max_def min_def)

lemma nonzero_bins_card: "length (filter (\<lambda>n. n > 0) (calc_hist gray)) = card (set gray)"
proof -
  have "length (filter (\<lambda>n. n > 0) (calc_hist gray)) =
        length (filter (\<lambda>b. b \<in> unat ` set gray) [0..<256])"
    unfolding calc_hist_def filter_map length_map comp_def
    by (rule arg_cong[where f=length], rule filter_cong) (auto simp: filter_empty_conv image_iff)
  also have "\<dots> = card {b \<in> {0..<256}. b \<in> unat ` set gray}"
    by (simp add: distinct_length_filter Int_def conj_commute)
  also have "{b \<in> {0..<256::nat}. b \<in> unat ` set gray} = unat ` set gray"
  proof -
    have "unat (v::8 word) < 256" for v
      using unsigned_less[of v, where 'a=nat] by simp
    then show ?thesis by auto
  qed
  also have "card (unat ` set gray) = card (set gray)"
    by (rule card_image) (simp add: inj_on_def word_unat_eq_iff)
  finally show ?thesis .
qed

lemma distinct_gray64: "distinct gray64"
  unfolding gray64_def
  by (simp add: distinct_map inj_on_def word_of_nat_eq_iff take_bit_nat_eq_self)

lemma calc_hist_gray64: "length (filter (\<lambda>n. n > 0) (calc_hist gray64)) = 64"
  by (simp add: nonzero_bins_card distinct_card[OF distinct_gray64]) (simp add: gray64_def)

text \<open>
  Claim C1 at the request \<open>n_colors = 0\<close>. On a grayscale plane with 64 occupied bins
  \<open>_auto_k\<close> answers 8, but \<open>quantize\<close> never asks it: the request is clamped to 2 before
  the test for zero, so the palette size is 2.
\<close>

theorem choose_k_zero_skips_auto_k:
  "choose_k 0 gray64 = 2 \<and> auto_k gray64 = 8"
  by (simp add: choose_k_clamp auto_k_def calc_hist_gray64)

section \<open>Quantizer: results\<close>

lemma color_distance_sym: "color_distance a b = color_distance b a"
  by (cases a, cases b) (simp add: color_distance_def weighted_sq_def Let_def algebra_simps)

lemma find_pair_None_far:
  assumes "find_pair P = None"
  shows "far_apart P"
proof -
  have none: "\<not> color_distance (P ! i) (P ! j) < 15" if "i < j" "j < length P" for i j
  proof -
    have "(i, j) \<in> set (pair_scan P)" using that
      by (auto simp: pair_scan_def intro!: bexI[of _ i])
    with assms show ?thesis by (auto simp: find_pair_def find_None_iff too_close_def)
  qed
  show ?thesis unfolding far_apart_def
  proof (intro allI impI)
    fix i j assume "i < length P" "j < length P" "i \<noteq> j"
    then consider "i < j" | "j < i" by linarith
    then show "15 \<le> color_distance (P ! i) (P ! j)"
    proof cases
      case 1 then show ?thesis using none[of i j] \<open>j < length P\<close> by simp
    next
      case 2 then show ?thesis using none[of j i] \<open>i < length P\<close>
        by (simp add: color_distance_sym[of "P ! i"])
    qed
  qed
qed

lemma merge_loop_far:
  "merge_loop palette labels = (P, L) \<Longrightarrow> length P \<le> 2 \<or> far_apart P"
proof (induction palette labels rule: merge_loop.induct)
  case (1 palette labels)
  show ?case
  proof (cases "length palette > 2")
    case False
    with "1.prems" show ?thesis by (simp add: merge_loop.simps)
  next
    case True
    show ?thesis
    proof (cases "find_pair palette")
      case None
      with True "1.prems" show ?thesis
        by (simp add: merge_loop.simps find_pair_None_far)
    next
      case (Some ij)
      obtain i j where ij: "ij = (i, j)" by (cases ij)
      from True Some ij "1.prems" have
        "merge_loop (delete_at j palette)
           (compact_labels (map (\<lambda>l. if l = j then i else l) labels) j) = (P, L)"
        by (simp add: merge_loop.simps)
      with "1.IH"[OF True Some ij[symmetric]] show ?thesis by simp
    qed
  qed
qed

lemma refine_palette_far:
  "refine_palette q palette labels = (P, L) \<Longrightarrow> length P \<le> 2 \<or> far_apart P"
  unfolding refine_palette_def Let_def by (rule merge_loop_far)

lemma quantize_Inr_cases:
  assumes "quantize ext img n method = Inr (qimg, hex_colors, masks)"
  obtains palette labels P L where
    "compute_palette ext method (map row_bgr (pix img))
        (nat (choose_k n (cv_gray ext (map row_bgr (pix img))))) = Inr palette"
    "assign_labels (map row_bgr (pix img)) palette = Inr labels"
    "refine_palette (map (\<lambda>l. palette ! l) labels) palette labels = (P, L)"
    "qimg = map (\<lambda>l. P ! l) L"
    "hex_colors = map bgr_to_hex P"
    "masks = (if nchan img = Some 4
              then map (\<lambda>m. map2 (AND) m (alpha_plane img)) (build_masks L (length P))
              else build_masks L (length P))"
    "nchan img = Some 3 \<or> nchan img = Some 4" "pix img \<noteq> []"
  using assms
  by (auto simp: quantize_def Let_def split: if_splits sum.splits prod.splits)

text \<open>
  Claim C4, as the code has it. The merge loop runs only while the palette has more than
  two entries, so the final palette of \<open>quantize\<close> either has at most two entries or has
  no two different entries closer than 15.
\<close>

theorem quantize_palette_far_apart_unless_two:
  assumes "quantize ext img n method = Inr (qimg, hex_colors, masks)"
  shows "\<exists>P. hex_colors = map bgr_to_hex P \<and> (length P \<le> 2 \<or> far_apart P)"
  using assms
  by (elim quantize_Inr_cases) (blast dest: refine_palette_far)

lemma quantize_img3far:
  "quantize no_extern img3far 3 ''median_cut'' =
     Inr ([(0, 0, 0), (100, 0, 255), (255, 255, 0)],
          [''#000000'', ''#ff0064'', ''#00ffff''],
          [[255, 0, 0], [0, 255, 0], [0, 0, 255]])"
  by code_simp

theorem quantize_palette_far_apart_unless_two_witness:
  "quantize no_extern img3far 3 ''median_cut'' =
     Inr ([(0, 0, 0), (100, 0, 255), (255, 255, 0)],
          [''#000000'', ''#ff0064'', ''#00ffff''],
          [[255, 0, 0], [0, 255, 0], [0, 0, 255]]) \<and>
   (\<exists>P. [''#000000'', ''#ff0064'', ''#00ffff''] = map bgr_to_hex P \<and>
        (length P \<le> 2 \<or> far_apart P))"
  using quantize_palette_far_apart_unless_two [OF quantize_img3far] quantize_img3far
  by simp

lemma quantize_img2close:
  "quantize no_extern img2close 2 ''median_cut'' =
     Inr ([(0, 0, 0), (1, 1, 1)], [''#000000'', ''#010101''], [[255, 0], [0, 255]])"
  by code_simp

lemma close_black_010101: "color_distance (0, 0, 0) (1, 1, 1) < 15"
  by (simp add: color_distance_def sqrt_less_15 weighted_sq_def)

text \<open>
  The claim as the spec words it fails on \<open>img2close\<close> with two colours requested: the
  final palette keeps both entries, whose distance is below 15.
\<close>

theorem quantize_close_pair_counterexample:
  "quantize no_extern img2close 2 ''median_cut'' =
     Inr ([(0, 0, 0), (1, 1, 1)], map bgr_to_hex [(0, 0, 0), (1, 1, 1)], [[255, 0], [0, 255]]) \<and>
   color_distance ([(0, 0, 0), (1, 1, 1)] ! 0) ([(0, 0, 0), (1, 1, 1)] ! 1) < 15"
  using quantize_img2close close_black_010101
  by (simp add: bgr_to_hex_def hex2_def hex_digit_def)

lemma takeWhile_neq_less:
  "x \<in> set xs \<Longrightarrow> length (takeWhile (\<lambda>y. y \<noteq> x) xs) < length xs"
  by (induction xs) auto

lemma index_of_less: "x \<in> set xs \<Longrightarrow> index_of x xs < length xs"
  by (simp add: index_of_def takeWhile_neq_less)

lemma argmin_less: "xs \<noteq> [] \<Longrightarrow> argmin xs < length xs"
  using takeWhile_neq_less[of "Min (set xs)" xs] by (simp add: argmin_def)

lemma nearest_less: "palette \<noteq> [] \<Longrightarrow> nearest palette p < length palette"
  using argmin_less[of "map (dist_sq p) palette"] by (simp add: nearest_def)

lemma keep_indices_nonempty: "keep_indices counts t \<noteq> []"
  by (simp add: keep_indices_def Let_def)

lemma merge_loop_labels:
  "merge_loop palette labels = (P, L) \<Longrightarrow> list_all (\<lambda>l. l < length palette) labels \<Longrightarrow>
     list_all (\<lambda>l. l < length P) L \<and> length L = length labels"
proof (induction palette labels rule: merge_loop.induct)
  case (1 palette labels)
  show ?case
  proof (cases "length palette > 2")
    case False
    with "1.prems" show ?thesis by (simp add: merge_loop.simps)
  next
    case True
    show ?thesis
    proof (cases "find_pair palette")
      case None
      with True "1.prems" show ?thesis by (simp add: merge_loop.simps)
    next
      case (Some ij)
      obtain i j where ij: "ij = (i, j)" by (cases ij)
      let ?L = "compact_labels (map (\<lambda>l. if l = j then i else l) labels) j"
      from True Some ij "1.prems" have step: "merge_loop (delete_at j palette) ?L = (P, L)"
        by (simp add: merge_loop.simps)
      from Some ij find_pair_bounds[of palette i j] have b: "i < j" "j < length palette" by auto
      have "list_all (\<lambda>l. l < length (delete_at j palette)) ?L"
        using "1.prems"(2) b
        by (auto simp: list_all_iff compact_labels_def delete_at_def)
      from "1.IH"[OF True Some ij[symmetric] step this]
      show ?thesis by (simp add: compact_labels_def)
    qed
  qed
qed

lemma refine_palette_labels:
  assumes "refine_palette q palette labels = (P, L)" and "length q = length labels"
  shows "list_all (\<lambda>l. l < length P) L \<and> length L = length labels"
proof -
  define keep where "keep = keep_indices (bincount labels (length palette)) (length labels)"
  define pal where "pal = map (\<lambda>i. palette ! i) keep"
  define nl where "nl = map (\<lambda>(l, q). if l \<in> set keep then index_of l keep
                                     else nearest pal q) (zip labels q)"
  have ne: "pal \<noteq> []" using keep_indices_nonempty by (simp add: pal_def keep_def)
  have lp: "length pal = length keep" by (simp add: pal_def)
  have "list_all (\<lambda>l. l < length pal) nl"
    unfolding list_all_iff nl_def lp
    using nearest_less[OF ne] by (auto simp: index_of_less lp)
  moreover have "merge_loop pal nl = (P, L)"
    using assms(1) unfolding refine_palette_def Let_def keep_def pal_def nl_def .
  ultimately have "list_all (\<lambda>l. l < length P) L \<and> length L = length nl"
    using merge_loop_labels by blast
  then show ?thesis using assms(2) by (simp add: nl_def)
qed

lemma and_255: "(255 :: 8 word) AND x = x"
proof -
  have "(255 :: 8 word) = - 1" by simp
  then show ?thesis by (simp only: and.left_neutral)
qed

lemma build_masks_one:
  assumes "list_all (\<lambda>l. l < k) L" and "n < length L"
  shows "i < k \<Longrightarrow> (build_masks L k ! i ! n = 255) = (i = L ! n)"
    and "i < k \<Longrightarrow> build_masks L k ! i ! n = 255 \<or> build_masks L k ! i ! n = 0"
    and "length (build_masks L k) = k" and "L ! n < k"
  using assms by (auto simp: build_masks_def list_all_length)

text \<open>
  The masks of \<open>quantize\<close> at a pixel: one mask holds 255 (for a BGRA image, the alpha
  value of the pixel) and every other mask holds 0. So the masks partition a BGR image,
  and for a BGRA image they do where alpha is 0 or 255.
\<close>

lemma quantize_masks_partition:
  assumes "quantize ext img n_colors method = Inr (q, hex_colors, masks)"
    and "n < length (pix img)"
  shows "\<exists>c < length masks. \<forall>i < length masks.
           masks ! i ! n = (if i = c then (if nchan img = Some 4 then alpha_plane img ! n else 255)
                            else 0)"
proof -
  from assms(1) obtain palette labels P L where
    al: "assign_labels (map row_bgr (pix img)) palette = Inr labels" and
    rp: "refine_palette (map (\<lambda>l. palette ! l) labels) palette labels = (P, L)" and
    ms: "masks = (if nchan img = Some 4
              then map (\<lambda>m. map2 (AND) m (alpha_plane img)) (build_masks L (length P))
              else build_masks L (length P))"
    by (elim quantize_Inr_cases)
  from al have ll: "length labels = length (pix img)"
    by (auto simp: assign_labels_def split: if_splits)
  from refine_palette_labels[OF rp] ll have
    inr: "list_all (\<lambda>l. l < length P) L" and lL: "length L = length (pix img)" by auto
  from assms(2) lL have nL: "n < length L" by simp
  have lm: "length masks = length P" using ms by (simp add: build_masks_def)
  have c: "L ! n < length P" using inr nL by (simp add: list_all_length)
  have la: "length (alpha_plane img) = length (pix img)" by (simp add: alpha_plane_def)
  have "masks ! i ! n = (if i = L ! n then (if nchan img = Some 4 then alpha_plane img ! n else 255)
                            else 0)" if "i < length masks" for i
  proof -
    from that lm have ik: "i < length P" by simp
    have bm: "build_masks L (length P) ! i ! n = (if i = L ! n then 255 else 0)"
      using ik nL by (simp add: build_masks_def)
    have lbm: "length (build_masks L (length P) ! i) = length L"
      using ik by (simp add: build_masks_def)
    show ?thesis
    proof (cases "nchan img = Some 4")
      case True
      then have "masks ! i ! n = (build_masks L (length P) ! i ! n) AND (alpha_plane img ! n)"
        using ms ik nL lbm la lL assms(2) by (simp add: build_masks_def)
      then show ?thesis using True bm by (simp add: and_255)
    next
      case False
      then show ?thesis using ms bm by simp
    qed
  qed
  with c lm show ?thesis by auto
qed

lemma quantize_img2a:
  "quantize no_extern img2a 2 ''median_cut'' =
     Inr ([(0, 0, 0), (255, 255, 255)], [''#000000'', ''#ffffff''], [[128, 0], [0, 255]])"
  by code_simp

text \<open>
  Claim C3 on a BGRA image with a half-transparent pixel. The first pixel has alpha 128,
  which is not zero; the masks hold 128 and 0 there, so no mask has the value 255 at that
  pixel and the first mask is not a \<open>{0, 255}\<close> image.
\<close>

theorem quantize_partial_alpha_mask:
  "alpha_plane img2a = [128, 255] \<and>
   quantize no_extern img2a 2 ''median_cut'' =
     Inr ([(0, 0, 0), (255, 255, 255)], [''#000000'', ''#ffffff''], [[128, 0], [0, 255]])"
  using quantize_img2a by (simp add: alpha_plane_def img2a_def)

section \<open>Alpha plane: results\<close>












section \<open>Engine: results\<close>

lemma progress_heap [simp]: "heap (progress cb pct name st) = heap st"
  by (simp add: progress_def Let_def split: option.splits)

lemma progress_calls_Some [simp]:
  "calls (progress (Some f) pct name st) = calls st @ [(pct, name)]"
  by (simp add: progress_def Let_def)

lemma main_path_heap:
  "main_path env cb cfg bgr_image st = (r, st') \<Longrightarrow> heap st' = heap st"
  by (auto simp: main_path_def Let_def split: sum.splits prod.splits)

lemma after_preprocess_heap:
  "after_preprocess env cb cfg processed st = (r, st') \<Longrightarrow> heap st' = heap st"
  by (auto simp: after_preprocess_def Let_def dest: main_path_heap split: sum.splits if_splits)

lemma resolve_mode_heap:
  assumes "resolve_mode env draw img c st = Inr st'" and "a \<noteq> c"
  shows "heap st' ! a = heap st ! a" and "length (heap st') = length (heap st)"
  using assms by (auto simp: resolve_mode_def split: if_splits sum.splits)

text \<open>
  Claim C10. \<open>vectorize\<close> leaves the caller's settings dictionary as it found it: the
  defaults and the resolved mode are written to the new dictionary \<open>cfg\<close> only.
\<close>

theorem vectorize_settings_unchanged:
  assumes "vectorize env cb draw image_data settings st = (r, st')"
    and "settings < length (heap st)"
  shows "heap st' ! settings = heap st ! settings"
proof -
  define c where "c = length (heap st)"
  define st1 where
    "st1 = progress cb 0 ''loading''
             (st\<lparr>heap := heap st @ [DEFAULT_SETTINGS ++ (heap st ! settings)]\<rparr>)"
  have h1: "heap st1 ! settings = heap st ! settings"
    using assms(2) by (simp add: st1_def nth_append)
  have ne: "settings \<noteq> c" using assms(2) by (simp add: c_def)
  show ?thesis
  proof (cases "load_image env image_data")
    case (Inl e)
    with assms(1) have "st' = st1"
      by (simp add: vectorize_def Let_def st1_def)
    with h1 show ?thesis by simp
  next
    case (Inr img)
    show ?thesis
    proof (cases "resolve_mode env draw img c st1")
      case (Inl e)
      with Inr assms(1) have "st' = st1"
        by (simp add: vectorize_def Let_def st1_def c_def)
      with h1 show ?thesis by simp
    next
      case st2: (Inr st2)
      from resolve_mode_heap(1)[OF st2 ne] h1
      have h2: "heap st2 ! settings = heap st ! settings" by simp
      from Inr st2 assms(1) obtain cfg processed where
        "after_preprocess env cb cfg processed (progress cb 10 ''preprocessing'' st2) = (r, st')"
        by (simp add: vectorize_def Let_def st1_def c_def)
      from after_preprocess_heap[OF this] h2 show ?thesis by simp
    qed
  qed
qed

theorem vectorize_settings_unchanged_witness:
  "(0::nat) < length (heap (st0 mc_settings)) \<and>
   heap (snd (vectorize (demo_env img_bw (Inr [])) (Some always_ok) [] blob 0 (st0 mc_settings))) ! 0
     = mc_settings"
  using vectorize_settings_unchanged
    [of "demo_env img_bw (Inr [])" "Some always_ok" "[]" blob 0 "st0 mc_settings"
        "fst (vectorize (demo_env img_bw (Inr [])) (Some always_ok) [] blob 0 (st0 mc_settings))"
        "snd (vectorize (demo_env img_bw (Inr [])) (Some always_ok) [] blob 0 (st0 mc_settings))"]
  by (simp add: st0_def)

lemma main_path_calls:
  "main_path env (Some f) cfg bgr_image st = (Inr res, st') \<Longrightarrow>
     calls st' = calls st @ [(55, ''tracing''), (80, ''assembling''), (90, ''optimizing''),
                             (100, ''done'')]"
  by (auto simp: main_path_def Let_def split: sum.splits prod.splits)

lemma after_preprocess_calls:
  assumes "after_preprocess env (Some f) cfg processed st = (Inr res, st')"
  shows "calls st' = calls st @ [(30, ''quantizing'')] \<or>
         calls st' = calls st @ [(30, ''quantizing''), (55, ''tracing''), (80, ''assembling''),
                                 (90, ''optimizing''), (100, ''done'')]"
  using assms
  by (auto simp: after_preprocess_def Let_def dest!: main_path_calls split: sum.splits if_splits)


lemma resolve_mode_calls:
  "resolve_mode env draw img c st = Inr st' \<Longrightarrow> calls st' = calls st"
  by (auto simp: resolve_mode_def split: if_splits sum.splits)

lemma vectorize_calls_on_success:
  assumes "vectorize env (Some f) draw image_data settings st = (Inr res, st')"
  shows "calls st' = calls st @ [(0, ''loading''), (10, ''preprocessing''), (30, ''quantizing'')] \<or>
         calls st' = calls st @ [(0, ''loading''), (10, ''preprocessing''), (30, ''quantizing''),
                                 (55, ''tracing''), (80, ''assembling''), (90, ''optimizing''),
                                 (100, ''done'')]"
proof -
  define st1 where
    "st1 = progress (Some f) 0 ''loading''
             (st\<lparr>heap := heap st @ [DEFAULT_SETTINGS ++ (heap st ! settings)]\<rparr>)"
  have c1: "calls st1 = calls st @ [(0, ''loading'')]" by (simp add: st1_def)
  from assms obtain img where img: "load_image env image_data = Inr img"
    by (cases "load_image env image_data") (auto simp: vectorize_def Let_def)
  from assms img obtain st2 where st2: "resolve_mode env draw img (length (heap st)) st1 = Inr st2"
    by (cases "resolve_mode env draw img (length (heap st)) st1")
       (auto simp: vectorize_def Let_def st1_def)
  from assms img st2 obtain cfg processed where
    ap: "after_preprocess env (Some f) cfg processed
           (progress (Some f) 10 ''preprocessing'' st2) = (Inr res, st')"
    by (simp add: vectorize_def Let_def st1_def)
  from after_preprocess_calls[OF ap] resolve_mode_calls[OF st2] c1
  show ?thesis by auto
qed

text \<open>
  Claim C6 on an image of one colour. The call succeeds, and the callback has received
  the first three of the seven stages only: the single-colour path returns before
  \<open>_progress(55, "tracing")\<close>.
\<close>

theorem vectorize_single_color_progress:
  "succeeded (fst (vectorize (demo_env img_red (Inr [])) (Some always_ok) [] blob 0
                     (st0 Map.empty))) \<and>
   calls (snd (vectorize (demo_env img_red (Inr [])) (Some always_ok) [] blob 0
                     (st0 Map.empty)))
     = [(0, ''loading''), (10, ''preprocessing''), (30, ''quantizing'')]"
  by code_simp

lemma vectorize_preprocess_trapped:
  "vectorize env cb draw image_data settings st =
   vectorize (env\<lparr>preprocess_c := \<lambda>img cfg. case preprocess_c env img cfg of
                                               Inl e \<Rightarrow> Inr img | Inr p \<Rightarrow> Inr p\<rparr>)
     cb draw image_data settings st"
proof -
  let ?env = "env\<lparr>preprocess_c := \<lambda>img cfg. case preprocess_c env img cfg of
                                               Inl e \<Rightarrow> Inr img | Inr p \<Rightarrow> Inr p\<rparr>"
  have t: "trace_layers ?env = trace_layers env"
    by (intro ext) (simp add: trace_layers_def)
  have o: "optimize_step ?env = optimize_step env"
    by (intro ext) (simp add: optimize_step_def)
  have m: "main_path ?env = main_path env"
    by (intro ext) (simp add: main_path_def t o cong: sum.case_cong prod.case_cong if_cong)
  have f: "fast_path ?env = fast_path env"
    by (intro ext) (simp add: fast_path_def)
  have a: "after_preprocess ?env = after_preprocess env"
    by (intro ext) (simp add: after_preprocess_def m f cong: sum.case_cong if_cong)
  have r: "resolve_mode ?env = resolve_mode env"
    by (intro ext) (simp add: resolve_mode_def)
  have p: "(case (case preprocess_c env img cfg of Inl e \<Rightarrow> Inr img | Inr p \<Rightarrow> Inr p) of
              Inl e \<Rightarrow> img | Inr q \<Rightarrow> q) =
           (case preprocess_c env img cfg of Inl e \<Rightarrow> img | Inr q \<Rightarrow> q)" for img cfg
    by (simp split: sum.splits)
  show ?thesis
    by (simp add: vectorize_def a r p cong: sum.case_cong if_cong)
qed

lemma vectorize_optimizer_trapped:
  "vectorize env cb draw image_data settings st =
   vectorize (env\<lparr>optimize_svg := \<lambda>svg cfg. case optimize_svg env svg cfg of
                                               Inl e \<Rightarrow> Inr svg | Inr s \<Rightarrow> Inr s\<rparr>)
     cb draw image_data settings st"
proof -
  let ?env = "env\<lparr>optimize_svg := \<lambda>svg cfg. case optimize_svg env svg cfg of
                                               Inl e \<Rightarrow> Inr svg | Inr s \<Rightarrow> Inr s\<rparr>"
  have t: "trace_layers ?env = trace_layers env"
    by (intro ext) (simp add: trace_layers_def)
  have o: "optimize_step ?env = optimize_step env"
    by (intro ext) (simp add: optimize_step_def split: sum.splits)
  have m: "main_path ?env = main_path env"
    by (intro ext) (simp add: main_path_def t o cong: sum.case_cong prod.case_cong if_cong)
  have f: "fast_path ?env = fast_path env"
    by (intro ext) (simp add: fast_path_def)
  have a: "after_preprocess ?env = after_preprocess env"
    by (intro ext) (simp add: after_preprocess_def m f cong: sum.case_cong if_cong)
  have r: "resolve_mode ?env = resolve_mode env"
    by (intro ext) (simp add: resolve_mode_def)
  show ?thesis
    by (simp add: vectorize_def a r cong: sum.case_cong if_cong)
qed

lemma vectorize_decoder_failure:
  "load_image env image_data = Inl e \<Longrightarrow>
     fst (vectorize env cb draw image_data settings st) = Inl e"
  by (simp add: vectorize_def Let_def)

lemma main_path_quantizer_failure:
  "quantize_c env bgr_image (dict_get cfg ''n_colors'' (VInt 16))
       (dict_get cfg ''quantize_method'' (VStr ''kmeans'')) = Inl e \<Longrightarrow>
     fst (main_path env cb cfg bgr_image st) = Inl e"
  by (simp add: main_path_def Let_def)

lemma main_path_error_is_quantizer:
  "fst (main_path env cb cfg bgr_image st) = Inl e \<Longrightarrow>
     quantize_c env bgr_image (dict_get cfg ''n_colors'' (VInt 16))
       (dict_get cfg ''quantize_method'' (VStr ''kmeans'')) = Inl e"
  by (auto simp: main_path_def Let_def split: sum.splits prod.splits)

lemma fast_path_error:
  "fast_path env cfg bgr_image u = Inl e \<Longrightarrow>
     \<exists>h w mask color. trace_layer env h w mask color cfg = Inl e"
  by (auto simp: fast_path_def Let_def split: sum.splits)

lemma after_preprocess_error:
  assumes "fst (after_preprocess env cb cfg processed st) = Inl e"
  shows "reshape3 (to_bgr (strip_alpha processed)) = Inl e
       \<or> (\<exists>bgr n m. quantize_c env bgr n m = Inl e)
       \<or> (\<exists>h w mask color. trace_layer env h w mask color cfg = Inl e)"
proof (cases "reshape3 (to_bgr (strip_alpha processed))")
  case (Inl x)
  with assms show ?thesis by (simp add: after_preprocess_def Let_def)
next
  case (Inr rows)
  show ?thesis
  proof (cases "length (remdups rows) = 1")
    case True
    with Inr assms have "fast_path env cfg (to_bgr (strip_alpha processed)) (remdups rows) = Inl e"
      by (simp add: after_preprocess_def Let_def)
    from fast_path_error[OF this] show ?thesis by blast
  next
    case False
    with Inr assms have
      "fst (main_path env cb cfg (to_bgr (strip_alpha processed))
             (progress cb 30 ''quantizing'' st)) = Inl e"
      by (simp add: after_preprocess_def Let_def)
    from main_path_error_is_quantizer[OF this] show ?thesis by blast
  qed
qed

text \<open>
  Where an exception of \<open>vectorize\<close> comes from: the decoder, the mode detector, the
  reshape of the pixels, the quantizer, or the tracer on the single-colour path. The
  preprocessor and the optimizer are not among them.
\<close>

lemma vectorize_error_origin:
  assumes "fst (vectorize env cb draw image_data settings st) = Inl e"
  shows "load_image env image_data = Inl e
       \<or> (\<exists>img. load_image env image_data = Inr img \<and>
             detect_mode (canny_count env img) (gray_std env img) draw img = Inl e)
       \<or> (\<exists>bgr. reshape3 bgr = Inl e)
       \<or> (\<exists>bgr n m. quantize_c env bgr n m = Inl e)
       \<or> (\<exists>h w mask color cfg. trace_layer env h w mask color cfg = Inl e)"
proof (cases "load_image env image_data")
  case (Inl x)
  with assms show ?thesis by (simp add: vectorize_def Let_def)
next
  case (Inr img)
  define st1 where
    "st1 = progress cb 0 ''loading''
             (st\<lparr>heap := heap st @ [DEFAULT_SETTINGS ++ (heap st ! settings)]\<rparr>)"
  show ?thesis
  proof (cases "resolve_mode env draw img (length (heap st)) st1")
    case (Inl x)
    with Inr assms have "x = e" by (simp add: vectorize_def Let_def st1_def)
    with Inl have "detect_mode (canny_count env img) (gray_std env img) draw img = Inl e"
      by (auto simp: resolve_mode_def split: if_splits sum.splits)
    with Inr show ?thesis by blast
  next
    case st2: (Inr st2)
    from Inr st2 assms obtain cfg processed where
      "fst (after_preprocess env cb cfg processed (progress cb 10 ''preprocessing'' st2)) = Inl e"
      by (simp add: vectorize_def Let_def st1_def)
    from after_preprocess_error[OF this] show ?thesis by blast
  qed
qed

text \<open>
  Claim C9 with a tracer that raises. On the image of one colour the exception reaches
  the caller, though neither the decoder nor the quantizer failed; on the image of two
  colours the same tracer is caught layer by layer and the call succeeds.
\<close>

theorem vectorize_fast_path_tracer_error:
  "fst (vectorize (demo_env img_red (Inl TypeError)) None [] blob 0 (st0 Map.empty))
     = Inl TypeError \<and>
   succeeded (fst (vectorize (demo_env img_bw (Inl TypeError)) None [] blob 0 (st0 mc_settings)))"
  by code_simp

section \<open>Determinism: results\<close>










section \<open>Optimizer: results\<close>

text \<open>
  Claim C7 on the path data \<open>M1.004.567\<close>, which holds the two numbers 1.004 and .567.
  The pattern does not match a number that starts with the point: the first pass rounds
  1.004 to 1 and copies the point and 567, giving \<open>M1.567\<close>; a second pass reads that as
  one number and gives \<open>M1.57\<close>. Optimizing twice is not optimizing once.
\<close>

theorem round_path_coords_not_idempotent:
  "round_path_coords ''M1.004.567'' = ''M1.567'' \<and>
   round_path_coords (round_path_coords ''M1.004.567'') = ''M1.57''"
  by code_simp

end
